theory Spec2Isabelle
  imports Complex_Main "HOL-Library.Sublist"
begin

section \<open>Errors\<close>

text \<open>
  The repository has one error class, \<^verbatim>\<open>ConfigError(varName)\<close>; it is thrown for a
  missing environment variable, for an unparseable boolean and (inside the read callback)
  for a failed file read. \<^verbatim>\<open>JSON.parse\<close> throws the built-in \<^verbatim>\<open>SyntaxError\<close>.
  A function that may throw returns \<open>error + 'a\<close>, with \<open>Inl\<close> for the throw.
\<close>

datatype error = ConfigError string | SyntaxError

section \<open>Environment settings loader (lib/config/environment-config.ts)\<close>

text \<open>
  \<^verbatim>\<open>process.env\<close> after \<^verbatim>\<open>dotenv.config\<close>: a mapping from keys to strings. A key that is
  not set reads as \<^verbatim>\<open>undefined\<close> (\<open>None\<close>); a key set to the empty string reads as \<open>Some ''''\<close>.
\<close>

type_synonym env = "string \<rightharpoonup> string"

text \<open>
  \<^verbatim>\<open>process.env\<close> is an object whose prototype is \<^verbatim>\<open>Object.prototype\<close>. The read
  \<^verbatim>\<open>process.env[configKey]\<close> of a key that is not set, but is the name of a member of
  \<^verbatim>\<open>Object.prototype\<close>, gives that inherited member: a function (for \<^verbatim>\<open>__proto__\<close> an object),
  not a string and not \<^verbatim>\<open>undefined\<close>. These are the names of the members.
\<close>

definition Object_prototype_members :: "string list" where
  "Object_prototype_members =
     [''constructor'', ''toString'', ''toLocaleString'', ''valueOf'', ''hasOwnProperty'',
      ''isPrototypeOf'', ''propertyIsEnumerable'', ''__proto__'', ''__defineGetter__'',
      ''__defineSetter__'', ''__lookupGetter__'', ''__lookupSetter__'']"

text \<open>
  \<^verbatim>\<open>function getEnvVariable(configKey: string) { return process.env[configKey]; }\<close>
  The result type \<open>string option\<close> is the declared \<^verbatim>\<open>string | undefined\<close>. It holds what
  the read gives for every key that is set and for every key outside
  \<open>Object_prototype_members\<close>; the inherited member that the read gives for an unset key in
  \<open>Object_prototype_members\<close> is not a value of this type, and \<open>getEnvVariable\<close>, \<open>getString\<close>
  and \<open>getBool\<close> are not used at such a key: their properties below are stated for keys
  outside \<open>Object_prototype_members\<close>, and the keys read by \<open>envConfig\<close> are outside it.
\<close>

definition getEnvVariable :: "env \<Rightarrow> string \<Rightarrow> string option" where
  "getEnvVariable process_env configKey = process_env configKey"

text \<open>
  JavaScript truthiness of a value of type \<^verbatim>\<open>string | undefined\<close>: \<^verbatim>\<open>undefined\<close> and the
  empty string are falsy, every other string is truthy.
\<close>

definition truthy :: "string option \<Rightarrow> bool" where
  "truthy v = (case v of None \<Rightarrow> False | Some s \<Rightarrow> s \<noteq> [])"

text \<open>
  \<^verbatim>\<open>
  function getString(configKey: string, defaultValue?: string): string {
      const value = getEnvVariable(configKey);
      if (!value && !defaultValue) { throw new ConfigError(configKey); }
      return value || (defaultValue || "");
  }
  \<close>
\<close>

definition getString :: "env \<Rightarrow> string \<Rightarrow> string option \<Rightarrow> error + string" where
  "getString process_env configKey defaultValue =
     (let value = getEnvVariable process_env configKey in
      if \<not> truthy value \<and> \<not> truthy defaultValue then Inl (ConfigError configKey)
      else Inr (if truthy value then the value
                else if truthy defaultValue then the defaultValue else []))"

text \<open>
  \<^verbatim>\<open>String.prototype.toLowerCase\<close>, on strings as byte sequences: the letters \<open>A\<close> to \<open>Z\<close>
  (codes 65 to 90) move to \<open>a\<close> to \<open>z\<close>, every other byte stays. No character outside
  ASCII lowers to one of the letters of \<^verbatim>\<open>true\<close> or \<^verbatim>\<open>false\<close>, so the comparison made by
  \<^verbatim>\<open>getBool\<close> is decided by the ASCII part.
\<close>

definition toLowerCase_char :: "char \<Rightarrow> char" where
  "toLowerCase_char c =
     (let n = (of_char c :: nat) in if 65 \<le> n \<and> n \<le> 90 then char_of (n + 32) else c)"

definition toLowerCase :: "string \<Rightarrow> string" where
  "toLowerCase s = map toLowerCase_char s"

text \<open>
  What "case-insensitively equals" means for a word \<open>w\<close> of lower-case letters: the string
  has the letters of \<open>w\<close> in order, each in lower case or in upper case (the upper-case
  letter is 32 below the lower-case one). It is used with \<open>''true''\<close> and \<open>''false''\<close> only.
\<close>

definition spells :: "string \<Rightarrow> string \<Rightarrow> bool" where
  "spells s w = list_all2 (\<lambda>c k. c = k \<or> (of_char c :: nat) + 32 = of_char k) s w"

text \<open>
  \<^verbatim>\<open>
  function getBool(configKey: string, defaultValue: boolean = false) {
      const value = getEnvVariable(configKey);
      if (!value) { return defaultValue; }
      const lowerValue = value.toLowerCase();
      const boolMap = new Map<string, boolean>([['true', true], ['false', false]]);
      if (boolMap.has(lowerValue)) { return boolMap.get(lowerValue)!; }
      else { throw new ConfigError(configKey); }
  }
  \<close>
  The optional argument is a \<open>bool option\<close>; \<open>None\<close> is the call without it.
\<close>

definition boolMap :: "(string \<times> bool) list" where
  "boolMap = [(''true'', True), (''false'', False)]"

definition getBool :: "env \<Rightarrow> string \<Rightarrow> bool option \<Rightarrow> error + bool" where
  "getBool process_env configKey defaultArg =
     (let defaultValue = (case defaultArg of None \<Rightarrow> False | Some b \<Rightarrow> b);
          value = getEnvVariable process_env configKey in
      if \<not> truthy value then Inr defaultValue
      else (let lowerValue = toLowerCase (the value) in
            case map_of boolMap lowerValue of
              Some b \<Rightarrow> Inr b
            | None \<Rightarrow> Inl (ConfigError configKey)))"

text \<open>
  \<^verbatim>\<open>
  class EnvironmentConfig {
      BasePath = getString("BASE_URL");
      DesktopReportPath = getString("DESKTOP_REPORT_PATH", "html-report/desktop");
      MobileReportPath = getString("MOBILE_REPORT_PATH", "html-report/mobile");
      RunParallel = getBool("RUN_PARALLEL");
  }
  export const envConfig = new EnvironmentConfig();
  \<close>
  The field initialisers run in order; the first throw aborts the construction.
\<close>

record EnvironmentConfig =
  BasePath :: string
  DesktopReportPath :: string
  MobileReportPath :: string
  RunParallel :: bool

definition envConfig :: "env \<Rightarrow> error + EnvironmentConfig" where
  "envConfig process_env =
     (case getString process_env ''BASE_URL'' None of
        Inl e \<Rightarrow> Inl e
      | Inr b \<Rightarrow>
     (case getString process_env ''DESKTOP_REPORT_PATH'' (Some ''html-report/desktop'') of
        Inl e \<Rightarrow> Inl e
      | Inr d \<Rightarrow>
     (case getString process_env ''MOBILE_REPORT_PATH'' (Some ''html-report/mobile'') of
        Inl e \<Rightarrow> Inl e
      | Inr m \<Rightarrow>
     (case getBool process_env ''RUN_PARALLEL'' None of
        Inl e \<Rightarrow> Inl e
      | Inr r \<Rightarrow>
          Inr \<lparr>BasePath = b, DesktopReportPath = d, MobileReportPath = m, RunParallel = r\<rparr>))))"

section \<open>Device registry (lib/types/index.ts, lib/types/devices)\<close>

record ViewportSize =
  width :: int
  height :: int

datatype BrowserType = chromium | firefox | webkit

record DeviceDescriptor =
  viewport :: ViewportSize
  userAgent :: string
  deviceScaleFactor :: real
  isMobile :: bool
  hasTouch :: bool
  defaultBrowserType :: BrowserType

text \<open>The user-authored descriptor of lib/types/devices/samsung-a52.ts.\<close>

definition GalaxyA52 :: DeviceDescriptor where
  "GalaxyA52 =
     \<lparr>viewport = \<lparr>width = 412, height = 915\<rparr>,
      userAgent = ''Mozilla/5.0 (Linux; Android 11; SAMSUNG SM-A526B) AppleWebKit/537.36 (KHTML, like Gecko) Chrome/90.0.4430.91 Mobile Safari/537.36'',
      deviceScaleFactor = 11 / 4,
      isMobile = True,
      hasTouch = True,
      defaultBrowserType = chromium\<rparr>"

text \<open>
  An object used as a dictionary from device names to descriptors. Reading a name that is
  not a key gives \<^verbatim>\<open>undefined\<close> (\<open>None\<close>).
\<close>

type_synonym registry = "string \<rightharpoonup> DeviceDescriptor"

text \<open>
  \<^verbatim>\<open>
  const __customList: { "Galaxy A52": DeviceDescriptor } = { "Galaxy A52": GalaxyA52 };
  export const customDevices = { ...devices, ...__customList };
  \<close>
  \<^verbatim>\<open>devices\<close> is the built-in mapping of the external library, a parameter here. An object
  spread copies the properties of its operands from left to right, a later one replacing an
  earlier one of the same name: this is \<open>++\<close> on maps.
\<close>

definition customList :: registry where
  "customList = [''Galaxy A52'' \<mapsto> GalaxyA52]"

definition customDevices :: "registry \<Rightarrow> registry" where
  "customDevices devices = devices ++ customList"

section \<open>Project composer (lib/config/playwright-project-config.ts)\<close>

record DeviceNameChannel =
  deviceName :: string
  channel :: "string option"

definition desktopBrowsers :: "DeviceNameChannel list" where
  "desktopBrowsers =
     [\<lparr>deviceName = ''Desktop Chrome'', channel = Some ''chrome''\<rparr>,
      \<lparr>deviceName = ''Desktop Edge'', channel = Some ''msedge''\<rparr>,
      \<lparr>deviceName = ''Desktop Firefox'', channel = None\<rparr>,
      \<lparr>deviceName = ''Desktop Safari'', channel = None\<rparr>]"

definition mobileBrowsers :: "string list" where
  "mobileBrowsers = [''Galaxy S5'', ''Galaxy S5 landscape'', ''Galaxy A52'', ''iPhone 12'']"

text \<open>
  \<^verbatim>\<open>s.replace(pattern, replacement)\<close> with a string pattern: the first occurrence of the
  pattern, wherever it is in \<open>s\<close>, is replaced; a string without the pattern is returned as
  it is. (The replacement used by the composer is empty, so the \<^verbatim>\<open>$\<close> patterns of the
  replacement string play no role.)
\<close>

fun String_replace :: "string \<Rightarrow> string \<Rightarrow> string \<Rightarrow> string" where
  "String_replace [] pat rep = (if pat = [] then rep else [])"
| "String_replace (c # cs) pat rep =
     (if prefix pat (c # cs) then rep @ drop (length pat) (c # cs)
      else c # String_replace cs pat rep)"

text \<open>
  The \<^verbatim>\<open>use\<close> field of a project. The two aggregate projects carry an array, one entry per
  listed device, each entry the result of the registry lookup. An individual project
  carries the object \<^verbatim>\<open>{ ...devices[deviceId], channel: channel }\<close>: the spread copies the six
  properties of the descriptor when the lookup found one and copies nothing when the lookup
  gave \<^verbatim>\<open>undefined\<close>, so the object is determined by the lookup result (first argument of
  \<open>UseObject\<close>) and the value of its \<^verbatim>\<open>channel\<close> property (second argument, \<open>None\<close> for
  \<^verbatim>\<open>undefined\<close>).
\<close>

datatype use = UseArray "DeviceDescriptor option list" | UseObject "DeviceDescriptor option" "string option"

record Project =
  name :: string
  use :: use
  outputDir :: string

text \<open>
  \<^verbatim>\<open>
  function createDeviceProject(id, deviceId, outputDir, channel?): Project {
      return { name: id, use: { ...devices[deviceId], channel: channel }, outputDir: outputDir };
  }
  \<close>
\<close>

definition createDeviceProject ::
  "registry \<Rightarrow> string \<Rightarrow> string \<Rightarrow> string \<Rightarrow> string option \<Rightarrow> Project" where
  "createDeviceProject devices ident deviceId outDir chan =
     \<lparr>name = ident, use = UseObject (devices deviceId) chan, outputDir = outDir\<rparr>"

text \<open>
  \<^verbatim>\<open>
  const desktopProjects = desktopBrowsers.map(d => createDeviceProject(
      d.deviceName.replace("Desktop ", ""), d.deviceName, envConfig.DesktopReportPath, d.channel));
  const mobileProjects = mobileBrowsers.map(id =>
      createDeviceProject(id, id, envConfig.MobileReportPath));
  \<close>
  The two lists and the registry are parameters, so that the composition can be examined on
  every input; the repository's own lists are \<open>desktopBrowsers\<close> and \<open>mobileBrowsers\<close>.
\<close>

definition desktopProjects ::
  "registry \<Rightarrow> EnvironmentConfig \<Rightarrow> DeviceNameChannel list \<Rightarrow> Project list" where
  "desktopProjects devices ec desktop =
     map (\<lambda>d. createDeviceProject devices (String_replace (deviceName d) ''Desktop '' [])
                  (deviceName d) (DesktopReportPath ec) (channel d)) desktop"

definition mobileProjects ::
  "registry \<Rightarrow> EnvironmentConfig \<Rightarrow> string list \<Rightarrow> Project list" where
  "mobileProjects devices ec mobile =
     map (\<lambda>i. createDeviceProject devices i i (MobileReportPath ec) None) mobile"

text \<open>
  \<^verbatim>\<open>
  const projectConfig: Project[] = [
      { name: "Desktop", use: desktopBrowsers.map(d => devices[d.deviceName]),
        outputDir: envConfig.DesktopReportPath },
      { name: "Mobile", use: mobileBrowsers.map(id => devices[id]),
        outputDir: envConfig.MobileReportPath },
      ...desktopProjects,
      ...mobileProjects,
  ];
  \<close>
\<close>

definition projectConfig ::
  "registry \<Rightarrow> EnvironmentConfig \<Rightarrow> DeviceNameChannel list \<Rightarrow> string list \<Rightarrow> Project list" where
  "projectConfig devices ec desktop mobile =
     [\<lparr>name = ''Desktop'', use = UseArray (map (\<lambda>d. devices (deviceName d)) desktop),
       outputDir = DesktopReportPath ec\<rparr>,
      \<lparr>name = ''Mobile'', use = UseArray (map (\<lambda>i. devices i) mobile),
       outputDir = MobileReportPath ec\<rparr>]
     @ desktopProjects devices ec desktop
     @ mobileProjects devices ec mobile"

text \<open>
  Evaluating the module: it imports \<^verbatim>\<open>envConfig\<close>, whose construction may throw, and the
  merged registry \<^verbatim>\<open>customDevices\<close> under the name \<^verbatim>\<open>devices\<close>; nothing in the module
  itself throws.
\<close>

definition playwright_project_config ::
  "env \<Rightarrow> registry \<Rightarrow> DeviceNameChannel list \<Rightarrow> string list \<Rightarrow> error + Project list" where
  "playwright_project_config process_env devices desktop mobile =
     (case envConfig process_env of
        Inl e \<Rightarrow> Inl e
      | Inr ec \<Rightarrow> Inr (projectConfig (customDevices devices) ec desktop mobile))"

section \<open>File-based settings loader (lib/config/file-config.ts)\<close>

text \<open>
  What is at a path: no file, something that cannot be read, or a file with its contents.
  \<^verbatim>\<open>fs.readFile\<close> calls its callback with \<^verbatim>\<open>(err, data)\<close>: an error when the file does not
  exist or cannot be read, the contents otherwise.
\<close>

datatype file_state = NoFile | Unreadable | File string

type_synonym filesystem = "string \<Rightarrow> file_state"

datatype read_result = Err | Data string

definition read_outcome :: "file_state \<Rightarrow> read_result" where
  "read_outcome f = (case f of NoFile \<Rightarrow> Err | Unreadable \<Rightarrow> Err | File d \<Rightarrow> Data d)"

text \<open>
  \<^verbatim>\<open>fs.readFile\<close> is asynchronous: it registers the callback and returns; the callback runs
  in a later turn of the event loop, after the synchronous code that called \<^verbatim>\<open>readFile\<close> has
  run to its end. The state holds the local variable \<^verbatim>\<open>content\<close> that the callback closes
  over, and the registered callbacks, each with the result its read will deliver.
\<close>

record runtime =
  content :: string
  pending :: "(string \<times> read_result) list"

definition fs_readFile :: "filesystem \<Rightarrow> string \<Rightarrow> runtime \<Rightarrow> runtime" where
  "fs_readFile fs path st = st\<lparr>pending := pending st @ [(path, read_outcome (fs path))]\<rparr>"

text \<open>
  \<^verbatim>\<open>
  (err, data) => {
      if (err) { throw new ConfigError(path as string); }
      content = data;
  }
  \<close>
\<close>

definition readObject_callback :: "string \<Rightarrow> read_result \<Rightarrow> runtime \<Rightarrow> error + runtime" where
  "readObject_callback path r st =
     (case r of Err \<Rightarrow> Inl (ConfigError path) | Data d \<Rightarrow> Inr (st\<lparr>content := d\<rparr>))"

text \<open>
  \<^verbatim>\<open>function parseJSON<T>(jsonString: string): T { return JSON.parse(jsonString) as T; }\<close>
  \<^verbatim>\<open>JSON.parse\<close> is a parameter: it gives the parsed value or throws \<^verbatim>\<open>SyntaxError\<close>.
\<close>

definition parseJSON :: "(string \<Rightarrow> 'j option) \<Rightarrow> string \<Rightarrow> error + 'j" where
  "parseJSON JSON_parse jsonString =
     (case JSON_parse jsonString of None \<Rightarrow> Inl SyntaxError | Some v \<Rightarrow> Inr v)"

text \<open>
  \<^verbatim>\<open>
  function readObject<T>(path: PathLike | string): T | undefined {
      let content: string = "";
      fs.readFile(path, "utf-8", (err, data) => { ... });
      if (!content) { return undefined; }
      return parseJSON<T>(content);
  }
  \<close>
  The result is what the synchronous caller receives (\<open>Inr None\<close> for \<^verbatim>\<open>undefined\<close>),
  together with the state in which the callback is still waiting.
\<close>

definition readObject ::
  "(string \<Rightarrow> 'j option) \<Rightarrow> filesystem \<Rightarrow> string \<Rightarrow> runtime \<Rightarrow> (error + 'j option) \<times> runtime" where
  "readObject JSON_parse fs path st0 =
     (let st1 = st0\<lparr>content := []\<rparr>;
          st2 = fs_readFile fs path st1
      in if content st2 = [] then (Inr None, st2)
         else (case parseJSON JSON_parse (content st2) of
                 Inl e \<Rightarrow> (Inl e, st2)
               | Inr v \<Rightarrow> (Inr (Some v), st2)))"

text \<open>
  The later turn of the event loop: the registered callbacks run in order; a throw inside
  a callback has no caller to catch it and ends the run.
\<close>

fun run_callbacks :: "(string \<times> read_result) list \<Rightarrow> runtime \<Rightarrow> error + runtime" where
  "run_callbacks [] st = Inr st"
| "run_callbacks ((path, r) # cbs) st =
     (case readObject_callback path r st of
        Inl e \<Rightarrow> Inl e
      | Inr st' \<Rightarrow> run_callbacks cbs st')"

definition event_loop :: "runtime \<Rightarrow> error + runtime" where
  "event_loop st = run_callbacks (pending st) (st\<lparr>pending := []\<rparr>)"

definition initial_runtime :: runtime where
  "initial_runtime = \<lparr>content = [], pending = []\<rparr>"

text \<open>
  \<^verbatim>\<open>export default { PlayWrightServerConfig: readObject<TestConfigWebServer[]>(WebServerConfigPath) }\<close>
  The path is \<^verbatim>\<open>path.join(__dirname, "../../env/config", "web-server.json")\<close>, a parameter.
\<close>

definition PlayWrightServerConfig ::
  "(string \<Rightarrow> 'j option) \<Rightarrow> filesystem \<Rightarrow> string \<Rightarrow> error + 'j option" where
  "PlayWrightServerConfig JSON_parse fs WebServerConfigPath =
     fst (readObject JSON_parse fs WebServerConfigPath initial_runtime)"

section \<open>Facade and entry point (lib/config/config.ts, playwright.config.ts)\<close>

text \<open>
  \<^verbatim>\<open>
  const reporters = [ ["html", { open: 'never' }], ["line"] ]
  \<close>
\<close>

definition reporters :: "(string \<times> (string \<times> string) list) list" where
  "reporters = [(''html'', [(''open'', ''never'')]), (''line'', [])]"

text \<open>
  \<^verbatim>\<open>
  class Config {
      EnvironmentConfig = envConfig;
      Reporters = reporters;
      ProjectConfig = projectConfig;
      FileConfig = fileConfig;
  }
  export const config = new Config();
  \<close>
  The imports are evaluated in this order; the first module that throws aborts the load.
  \<open>FileConfig\<close> holds the one property of the file-config object, \<^verbatim>\<open>PlayWrightServerConfig\<close>.
\<close>

record 'j Config =
  EnvironmentConfig :: EnvironmentConfig
  Reporters :: "(string \<times> (string \<times> string) list) list"
  ProjectConfig :: "Project list"
  FileConfig :: "'j option"

definition config ::
  "env \<Rightarrow> registry \<Rightarrow> (string \<Rightarrow> 'j option) \<Rightarrow> filesystem \<Rightarrow> string \<Rightarrow> error + 'j Config" where
  "config process_env devices JSON_parse fs WebServerConfigPath =
     (case envConfig process_env of
        Inl e \<Rightarrow> Inl e
      | Inr ec \<Rightarrow>
     (case PlayWrightServerConfig JSON_parse fs WebServerConfigPath of
        Inl e \<Rightarrow> Inl e
      | Inr fc \<Rightarrow>
          Inr \<lparr>EnvironmentConfig = ec, Reporters = reporters,
               ProjectConfig = projectConfig (customDevices devices) ec desktopBrowsers mobileBrowsers,
               FileConfig = fc\<rparr>))"

text \<open>
  Reading a property of the \<^verbatim>\<open>EnvironmentConfig\<close> instance by name. The instance has the
  four properties its field initialisers set; reading any other name gives \<^verbatim>\<open>undefined\<close>
  (\<open>None\<close>).
\<close>

datatype js_value = JString string | JBoolean bool

definition EnvironmentConfig_get :: "EnvironmentConfig \<Rightarrow> string \<Rightarrow> js_value option" where
  "EnvironmentConfig_get ec prop =
     (if prop = ''BasePath'' then Some (JString (BasePath ec))
      else if prop = ''DesktopReportPath'' then Some (JString (DesktopReportPath ec))
      else if prop = ''MobileReportPath'' then Some (JString (MobileReportPath ec))
      else if prop = ''RunParallel'' then Some (JBoolean (RunParallel ec))
      else None)"

text \<open>
  \<^verbatim>\<open>
  export default defineConfig({
    testDir: './tests-examples',
    fullyParallel: config.EnvironmentConfig.RunParrel,
    forbidOnly: !!process.env.CI,
    retries: process.env.CI ? 2 : 0,
    workers: process.env.CI ? 1 : undefined,
    reporter: config.Reporters,
    use: { baseURL: config.EnvironmentConfig.BasePath, trace: 'on-first-retry' },
    projects: config.ProjectConfig,
    webServer: config.FileConfig.PlayWrightServerConfig,
  });
  \<close>
  The record is the object handed to the external runner.
\<close>

record 'j TestConfig =
  testDir :: string
  fullyParallel :: "js_value option"
  forbidOnly :: bool
  retries :: nat
  workers :: "nat option"
  reporter :: "(string \<times> (string \<times> string) list) list"
  baseURL :: "js_value option"
  trace :: string
  projects :: "Project list"
  webServer :: "'j option"

definition defineConfig :: "env \<Rightarrow> 'j Config \<Rightarrow> 'j TestConfig" where
  "defineConfig process_env c =
     \<lparr>testDir = ''./tests-examples'',
      fullyParallel = EnvironmentConfig_get (EnvironmentConfig c) ''RunParrel'',
      forbidOnly = truthy (process_env ''CI''),
      retries = (if truthy (process_env ''CI'') then 2 else 0),
      workers = (if truthy (process_env ''CI'') then Some 1 else None),
      reporter = Reporters c,
      baseURL = EnvironmentConfig_get (EnvironmentConfig c) ''BasePath'',
      trace = ''on-first-retry'',
      projects = ProjectConfig c,
      webServer = FileConfig c\<rparr>"

definition playwright_config ::
  "env \<Rightarrow> registry \<Rightarrow> (string \<Rightarrow> 'j option) \<Rightarrow> filesystem \<Rightarrow> string \<Rightarrow> error + 'j TestConfig" where
  "playwright_config process_env devices JSON_parse fs WebServerConfigPath =
     (case config process_env devices JSON_parse fs WebServerConfigPath of
        Inl e \<Rightarrow> Inl e
      | Inr c \<Rightarrow> Inr (defineConfig process_env c))"

section \<open>Concrete inputs\<close>

text \<open>Environments, a built-in registry, input lists and a file system used in the examples below.\<close>

definition env_local :: env where
  "env_local = [''BASE_URL'' \<mapsto> ''http://localhost'', ''RUN_PARALLEL'' \<mapsto> ''true'']"

definition env_mixed_case :: env where
  "env_mixed_case = [''RUN_PARALLEL'' \<mapsto> ''TrUe'', ''HEADLESS'' \<mapsto> ''FALSE'', ''TRACE'' \<mapsto> ''yes'']"

definition env_empty_values :: env where
  "env_empty_values = [''BASE_URL'' \<mapsto> [], ''RUN_PARALLEL'' \<mapsto> []]"

definition DesktopChrome :: DeviceDescriptor where
  "DesktopChrome =
     \<lparr>viewport = \<lparr>width = 1280, height = 720\<rparr>,
      userAgent = ''Mozilla/5.0 Chrome'',
      deviceScaleFactor = 1,
      isMobile = False,
      hasTouch = False,
      defaultBrowserType = chromium\<rparr>"

definition iPhone12 :: DeviceDescriptor where
  "iPhone12 =
     \<lparr>viewport = \<lparr>width = 390, height = 664\<rparr>,
      userAgent = ''Mozilla/5.0 iPhone'',
      deviceScaleFactor = 3,
      isMobile = True,
      hasTouch = True,
      defaultBrowserType = webkit\<rparr>"

definition builtin_devices :: registry where
  "builtin_devices =
     [''Desktop Chrome'' \<mapsto> DesktopChrome, ''iPhone 12'' \<mapsto> iPhone12, ''Galaxy A52'' \<mapsto> iPhone12]"

definition unknown_desktop :: "DeviceNameChannel list" where
  "unknown_desktop = [\<lparr>deviceName = ''Nokia 3310'', channel = None\<rparr>]"

definition chrome_desktop :: "DeviceNameChannel list" where
  "chrome_desktop = [\<lparr>deviceName = ''Desktop Chrome'', channel = Some ''chrome''\<rparr>]"

definition iphone_desktop :: "DeviceNameChannel list" where
  "iphone_desktop = [\<lparr>deviceName = ''iPhone 12'', channel = None\<rparr>]"

definition remote_desktop :: "DeviceNameChannel list" where
  "remote_desktop = [\<lparr>deviceName = ''Remote Desktop Chrome'', channel = None\<rparr>]"

definition server_json_path :: string where
  "server_json_path = ''env/config/web-server.json''"

definition fs_with_server_json :: filesystem where
  "fs_with_server_json = (\<lambda>p. if p = server_json_path then File ''[]'' else NoFile)"

definition ec_local :: EnvironmentConfig where
  "ec_local =
     \<lparr>BasePath = ''http://localhost'', DesktopReportPath = ''html-report/desktop'',
      MobileReportPath = ''html-report/mobile'', RunParallel = True\<rparr>"

definition no_JSON :: "string \<Rightarrow> unit option" where
  "no_JSON s = None"

section \<open>Environment settings loader: properties\<close>

lemma toLowerCase_char_iff:
  "toLowerCase_char c = k \<longleftrightarrow>
     (if 65 \<le> (of_char c :: nat) \<and> (of_char c :: nat) \<le> 90
      then (of_char k :: nat) = of_char c + 32 else c = k)"
proof (cases "65 \<le> (of_char c :: nat) \<and> (of_char c :: nat) \<le> 90")
  case True
  then have "take_bit 8 (of_char c + 32 :: nat) = of_char c + 32"
    by (simp add: take_bit_nat_eq_self_iff)
  with True show ?thesis
    by (auto simp: toLowerCase_char_def Let_def char_of_eq_iff)
next
  case False
  then show ?thesis by (auto simp: toLowerCase_char_def Let_def)
qed

lemma toLowerCase_char_letter:
  assumes "97 \<le> (of_char k :: nat)" "(of_char k :: nat) \<le> 122"
  shows "toLowerCase_char c = k \<longleftrightarrow> c = k \<or> (of_char c :: nat) + 32 = of_char k"
  using assms by (auto simp: toLowerCase_char_iff)

text \<open>Lower-casing gives a word of lower-case letters exactly for the strings that spell it.\<close>

lemma toLowerCase_spells:
  "\<forall>k \<in> set w. 97 \<le> (of_char k :: nat) \<and> (of_char k :: nat) \<le> 122 \<Longrightarrow>
   toLowerCase v = w \<longleftrightarrow> spells v w"
proof (induction v arbitrary: w)
  case Nil
  then show ?case by (auto simp: toLowerCase_def spells_def)
next
  case (Cons c v)
  show ?case
  proof (cases w)
    case Nil
    then show ?thesis by (simp add: toLowerCase_def spells_def)
  next
    case (Cons k w')
    with Cons.prems have k: "97 \<le> (of_char k :: nat)" "(of_char k :: nat) \<le> 122"
      and w': "\<forall>k \<in> set w'. 97 \<le> (of_char k :: nat) \<and> (of_char k :: nat) \<le> 122"
      by auto
    from Cons.IH [OF w'] have "map toLowerCase_char v = w' \<longleftrightarrow> spells v w'"
      by (simp add: toLowerCase_def)
    then show ?thesis
      using toLowerCase_char_letter [OF k, of c] Cons
      by (simp add: toLowerCase_def spells_def)
  qed
qed

lemma toLowerCase_true: "toLowerCase v = ''true'' \<longleftrightarrow> spells v ''true''"
  by (rule toLowerCase_spells) simp

lemma toLowerCase_false: "toLowerCase v = ''false'' \<longleftrightarrow> spells v ''false''"
  by (rule toLowerCase_spells) simp

lemma getBool_cases:
  "getBool e k d =
     (case e k of
        None \<Rightarrow> Inr (case d of None \<Rightarrow> False | Some b \<Rightarrow> b)
      | Some v \<Rightarrow>
          if v = [] then Inr (case d of None \<Rightarrow> False | Some b \<Rightarrow> b)
          else if toLowerCase v = ''true'' then Inr True
          else if toLowerCase v = ''false'' then Inr False
          else Inl (ConfigError k))"
  by (auto simp: getBool_def getEnvVariable_def truthy_def Let_def boolMap_def split: option.splits)

text \<open>
  Claim C7, as stated: \<^verbatim>\<open>getString\<close> fails exactly when the key is absent and no default
  was supplied, and returns the exact value of every key that is present. This is false for
  a key that is present with the empty string as its value: with no default the call
  throws, and with a default it returns the default, not the value.
\<close>

theorem getString_empty_value_counterexample:
  "env_empty_values ''BASE_URL'' = Some [] \<and>
   getString env_empty_values ''BASE_URL'' None = Inl (ConfigError ''BASE_URL'') \<and>
   getString env_empty_values ''BASE_URL'' (Some ''http://fallback'') = Inr ''http://fallback''"
  by (simp add: env_empty_values_def getString_def getEnvVariable_def truthy_def)

text \<open>
  Claim C7, amended: for every key that is not the name of a member of \<^verbatim>\<open>Object.prototype\<close>,
  \<^verbatim>\<open>getString\<close> fails, with a \<^verbatim>\<open>ConfigError\<close> naming the key and with no other error,
  exactly when the key is absent from the environment or set to the empty string and the
  default is not supplied or is the empty string; for every such key that is present with
  a non-empty value it returns exactly that value; and when the key is absent or set to
  the empty string and a non-empty default is supplied, it returns that default.
\<close>

theorem getString_contract:
  "k \<notin> set Object_prototype_members \<Longrightarrow>
   (getString e k d = Inl (ConfigError k) \<longleftrightarrow>
      (e k = None \<or> e k = Some []) \<and> (d = None \<or> d = Some [])) \<and>
   (\<forall>err. getString e k d = Inl err \<longrightarrow> err = ConfigError k) \<and>
   (\<forall>v. e k = Some v \<and> v \<noteq> [] \<longrightarrow> getString e k d = Inr v) \<and>
   (\<forall>s. (e k = None \<or> e k = Some []) \<and> d = Some s \<and> s \<noteq> [] \<longrightarrow> getString e k d = Inr s)"
  by (auto simp: getString_def getEnvVariable_def truthy_def Let_def split: option.splits)

theorem getString_contract_witness:
  "''BASE_URL'' \<notin> set Object_prototype_members \<and>
   ''API_KEY'' \<notin> set Object_prototype_members \<and>
   ''DESKTOP_REPORT_PATH'' \<notin> set Object_prototype_members \<and>
   env_local ''BASE_URL'' = Some ''http://localhost'' \<and>
   getString env_local ''BASE_URL'' None = Inr ''http://localhost'' \<and>
   env_local ''API_KEY'' = None \<and>
   getString env_local ''API_KEY'' None = Inl (ConfigError ''API_KEY'') \<and>
   env_local ''DESKTOP_REPORT_PATH'' = None \<and>
   getString env_local ''DESKTOP_REPORT_PATH'' (Some ''html-report/desktop'') =
     Inr ''html-report/desktop''"
proof -
  have own: "''BASE_URL'' \<notin> set Object_prototype_members"
    "''API_KEY'' \<notin> set Object_prototype_members"
    "''DESKTOP_REPORT_PATH'' \<notin> set Object_prototype_members"
    by (simp_all add: Object_prototype_members_def)
  have present: "env_local ''BASE_URL'' = Some ''http://localhost''"
    and absent: "env_local ''API_KEY'' = None" "env_local ''DESKTOP_REPORT_PATH'' = None"
    by (simp_all add: env_local_def)
  have nonempty: "''http://localhost'' \<noteq> []" "''html-report/desktop'' \<noteq> []"
    by simp_all
  have "getString env_local ''BASE_URL'' None = Inr ''http://localhost''"
    using getString_contract [OF own(1), of env_local None] present nonempty(1) by blast
  moreover have "getString env_local ''API_KEY'' None = Inl (ConfigError ''API_KEY'')"
    using getString_contract [OF own(2), of env_local None] absent(1) by blast
  moreover have "getString env_local ''DESKTOP_REPORT_PATH'' (Some ''html-report/desktop'') =
      Inr ''html-report/desktop''"
    using getString_contract [OF own(3), of env_local "Some ''html-report/desktop''"]
      absent(2) nonempty(2) by blast
  ultimately show ?thesis using own present absent by blast
qed

text \<open>
  Claim C8, as stated: when the key is present, \<^verbatim>\<open>getBool\<close> fails for every value other
  than a spelling of \<^verbatim>\<open>true\<close> or \<^verbatim>\<open>false\<close>. This is false for a key that is present with the
  empty string as its value: the call returns the default.
\<close>

theorem getBool_empty_value_counterexample:
  "env_empty_values ''RUN_PARALLEL'' = Some [] \<and>
   getBool env_empty_values ''RUN_PARALLEL'' None = Inr False \<and>
   getBool env_empty_values ''RUN_PARALLEL'' (Some True) = Inr True"
  by (simp add: env_empty_values_def getBool_def getEnvVariable_def truthy_def)

text \<open>
  Claim C8, amended: for every key that is not the name of a member of \<^verbatim>\<open>Object.prototype\<close>,
  \<^verbatim>\<open>getBool\<close> returns the supplied default (false when none is supplied) when the key is
  absent or set to the empty string; when the key is present with a non-empty value, it
  returns true if the value case-insensitively equals \<^verbatim>\<open>true\<close>, false if it
  case-insensitively equals \<^verbatim>\<open>false\<close>, and fails with a \<^verbatim>\<open>ConfigError\<close> naming the key for
  any other non-empty value.
\<close>

theorem getBool_strict_parse:
  "k \<notin> set Object_prototype_members \<Longrightarrow>
   (e k = None \<or> e k = Some [] \<longrightarrow>
      getBool e k d = Inr (case d of None \<Rightarrow> False | Some b \<Rightarrow> b)) \<and>
   (\<forall>v. e k = Some v \<and> v \<noteq> [] \<longrightarrow>
      getBool e k d =
        (if spells v ''true'' then Inr True
         else if spells v ''false'' then Inr False
         else Inl (ConfigError k)))"
  by (auto simp: getBool_cases toLowerCase_true toLowerCase_false)

theorem getBool_strict_parse_witness:
  "''RUN_PARALLEL'' \<notin> set Object_prototype_members \<and>
   ''HEADLESS'' \<notin> set Object_prototype_members \<and>
   ''TRACE'' \<notin> set Object_prototype_members \<and>
   ''CI'' \<notin> set Object_prototype_members \<and>
   getBool env_mixed_case ''RUN_PARALLEL'' None = Inr True \<and>
   getBool env_mixed_case ''HEADLESS'' (Some True) = Inr False \<and>
   getBool env_mixed_case ''TRACE'' None = Inl (ConfigError ''TRACE'') \<and>
   getBool env_mixed_case ''CI'' (Some True) = Inr True \<and>
   getBool env_mixed_case ''CI'' None = Inr False"
proof -
  have own: "''RUN_PARALLEL'' \<notin> set Object_prototype_members"
    "''HEADLESS'' \<notin> set Object_prototype_members"
    "''TRACE'' \<notin> set Object_prototype_members"
    "''CI'' \<notin> set Object_prototype_members"
    by (simp_all add: Object_prototype_members_def)
  show ?thesis
    using own
      getBool_strict_parse [OF own(1), of env_mixed_case None]
      getBool_strict_parse [OF own(2), of env_mixed_case "Some True"]
      getBool_strict_parse [OF own(3), of env_mixed_case None]
      getBool_strict_parse [OF own(4), of env_mixed_case "Some True"]
      getBool_strict_parse [OF own(4), of env_mixed_case None]
    by (simp add: env_mixed_case_def spells_def)
qed

lemma envConfig_env_local: "envConfig env_local = Inr ec_local"
  by (simp add: envConfig_def getString_def getBool_def env_local_def getEnvVariable_def truthy_def
      toLowerCase_def toLowerCase_char_def boolMap_def char_of_eq_iff ec_local_def)

section \<open>Device registry: properties\<close>

text \<open>
  Claim C9: for every device name present in both the built-in mapping and the
  user-authored mapping, the registry maps the name to the user-authored descriptor; for
  every name present in exactly one of the two mappings, the registry maps it to that
  mapping's descriptor; in particular the registry resolves \<^verbatim>\<open>Galaxy A52\<close> to the
  user-authored \<^verbatim>\<open>GalaxyA52\<close> descriptor.
\<close>

theorem customDevices_overlay:
  "(n \<in> dom devices \<and> n \<in> dom customList \<longrightarrow> customDevices devices n = customList n) \<and>
   (n \<notin> dom devices \<and> n \<in> dom customList \<longrightarrow> customDevices devices n = customList n) \<and>
   (n \<in> dom devices \<and> n \<notin> dom customList \<longrightarrow> customDevices devices n = devices n) \<and>
   customDevices devices ''Galaxy A52'' = Some GalaxyA52"
  by (auto simp: customDevices_def customList_def map_add_def split: option.splits)

theorem customDevices_overlay_witness:
  "builtin_devices ''Galaxy A52'' = Some iPhone12 \<and>
   customList ''Galaxy A52'' = Some GalaxyA52 \<and>
   iPhone12 \<noteq> GalaxyA52 \<and>
   customDevices builtin_devices ''Galaxy A52'' = Some GalaxyA52 \<and>
   customList ''iPhone 12'' = None \<and>
   customDevices builtin_devices ''iPhone 12'' = Some iPhone12"
proof -
  have b: "builtin_devices ''Galaxy A52'' = Some iPhone12" "builtin_devices ''iPhone 12'' = Some iPhone12"
    by (simp_all add: builtin_devices_def)
  have c: "customList ''Galaxy A52'' = Some GalaxyA52" "customList ''iPhone 12'' = None"
    by (simp_all add: customList_def)
  have d: "iPhone12 \<noteq> GalaxyA52"
    by (simp add: iPhone12_def GalaxyA52_def)
  have "customDevices builtin_devices ''Galaxy A52'' = customList ''Galaxy A52''"
    using customDevices_overlay [of "''Galaxy A52''" builtin_devices] b c by blast
  moreover have "customDevices builtin_devices ''iPhone 12'' = builtin_devices ''iPhone 12''"
    using customDevices_overlay [of "''iPhone 12''" builtin_devices] b c by blast
  ultimately show ?thesis using b c d by simp
qed

section \<open>Project composer: properties\<close>

lemma replace_prefix: "p \<noteq> [] \<Longrightarrow> prefix p s \<Longrightarrow> String_replace s p r = r @ drop (length p) s"
  by (cases s) auto

lemma replace_absent: "\<not> sublist p s \<Longrightarrow> String_replace s p r = s"
proof (induction s)
  case Nil then show ?case by auto
next
  case (Cons c cs)
  have "\<not> prefix p (c # cs)" using Cons.prems by auto
  moreover have "\<not> sublist p cs" using Cons.prems by (auto simp: sublist_Cons_right)
  ultimately show ?case using Cons.IH by simp
qed

lemma prefix_append_butlast:
  assumes "p \<noteq> []" "prefix p (a @ p @ b)" "a \<noteq> []"
  shows "prefix p (a @ butlast p)"
proof -
  have "length p \<le> length (a @ butlast p)" using assms by (cases a) auto
  moreover have "a @ p @ b = (a @ butlast p) @ (last p # b)" using assms(1) by simp
  ultimately show ?thesis using assms(2)
    by (metis prefix_length_prefix prefixI)
qed

lemma replace_first:
  "p \<noteq> [] \<Longrightarrow> \<not> sublist p (a @ butlast p) \<Longrightarrow> String_replace (a @ p @ b) p r = a @ r @ b"
proof (induction a)
  case Nil then show ?case by (cases p) auto
next
  case (Cons x a)
  have "\<not> prefix p (x # a @ p @ b)"
    using prefix_append_butlast [of p "x # a" b] Cons.prems by auto
  moreover have "\<not> sublist p (a @ butlast p)"
    using Cons.prems by (auto simp: sublist_Cons_right)
  ultimately show ?case using Cons by simp
qed

lemma projectConfig_nth_desktop:
  "i < length desktop \<Longrightarrow>
   projectConfig devices ec desktop mobile ! (2 + i) =
     createDeviceProject devices (String_replace (deviceName (desktop ! i)) ''Desktop '' [])
       (deviceName (desktop ! i)) (DesktopReportPath ec) (channel (desktop ! i))"
  by (simp add: projectConfig_def desktopProjects_def nth_append)

lemma projectConfig_nth_mobile:
  "j < length mobile \<Longrightarrow>
   projectConfig devices ec desktop mobile ! (2 + length desktop + j) =
     createDeviceProject devices (mobile ! j) (mobile ! j) (MobileReportPath ec) None"
  by (simp add: projectConfig_def desktopProjects_def mobileProjects_def nth_append)

lemma projectConfig_names:
  "map name (projectConfig devices ec desktop mobile) =
     ''Desktop'' # ''Mobile'' # map (\<lambda>d. String_replace (deviceName d) ''Desktop '' []) desktop @ mobile"
  by (simp add: projectConfig_def desktopProjects_def mobileProjects_def createDeviceProject_def comp_def)

lemma desktop_name:
  "i < length desktop \<Longrightarrow>
   name (projectConfig devices ec desktop mobile ! (2 + i)) =
     String_replace (deviceName (desktop ! i)) ''Desktop '' []"
  using projectConfig_nth_desktop [of i desktop devices ec mobile]
  by (simp only: createDeviceProject_def) simp

lemma mobile_name:
  "j < length mobile \<Longrightarrow>
   name (projectConfig devices ec desktop mobile ! (2 + length desktop + j)) = mobile ! j"
  using projectConfig_nth_mobile [of j mobile devices ec desktop]
  by (simp only: createDeviceProject_def) simp

lemma replace_Desktop_prefix:
  "prefix ''Desktop '' n \<Longrightarrow> String_replace n ''Desktop '' [] = drop (length ''Desktop '') n"
  using replace_prefix [of "''Desktop ''" n "[]"] by simp

lemma replace_Desktop_inside:
  "\<not> sublist ''Desktop '' (a @ ''Desktop'') \<Longrightarrow>
   String_replace (a @ ''Desktop '' @ b) ''Desktop '' [] = a @ b"
  using replace_first [of "''Desktop ''" a b "[]"] by simp

lemma playwright_project_config_Inr:
  "envConfig e = Inr ec \<Longrightarrow>
   playwright_project_config e devs desktop mobile =
     Inr (projectConfig (customDevices devs) ec desktop mobile)"
  by (simp add: playwright_project_config_def)

lemma playwright_project_config_Inl:
  "playwright_project_config e devs desktop mobile = Inl err \<longleftrightarrow> envConfig e = Inl err"
  by (simp add: playwright_project_config_def split: sum.splits)

lemma desktop_project_mem:
  "d \<in> set desktop \<Longrightarrow>
   createDeviceProject devices (String_replace (deviceName d) ''Desktop '' []) (deviceName d)
     (DesktopReportPath ec) (channel d) \<in> set (projectConfig devices ec desktop mobile)"
  by (simp add: projectConfig_def desktopProjects_def)

lemma mobile_project_mem:
  "m \<in> set mobile \<Longrightarrow>
   createDeviceProject devices m m (MobileReportPath ec) None
     \<in> set (projectConfig devices ec desktop mobile)"
  by (simp add: projectConfig_def mobileProjects_def)

lemma map_resolved:
  "map f xs = map Some ys \<Longrightarrow> map (\<lambda>x. g x (f x)) xs = map (\<lambda>(x, y). g x (Some y)) (zip xs ys)"
proof (induction xs arbitrary: ys)
  case Nil
  then show ?case by simp
next
  case (Cons x xs)
  then obtain y ys' where "ys = y # ys'" by (cases ys) auto
  with Cons show ?case by simp
qed

text \<open>
  Claim C3, as stated: for every input list containing a device name that is not a key of
  the registry, composition fails with an unknown-device error rather than producing a
  project for it. This is false: the lookup gives \<^verbatim>\<open>undefined\<close>, the spread of \<^verbatim>\<open>undefined\<close>
  copies nothing, and the composition returns a project for the name whose settings hold
  no device property.
\<close>

theorem unknown_device_counterexample:
  "customDevices builtin_devices ''Nokia 3310'' = None \<and>
   playwright_project_config env_local builtin_devices unknown_desktop [] =
     Inr [\<lparr>name = ''Desktop'', use = UseArray [None], outputDir = ''html-report/desktop''\<rparr>,
          \<lparr>name = ''Mobile'', use = UseArray [], outputDir = ''html-report/mobile''\<rparr>,
          \<lparr>name = ''Nokia 3310'', use = UseObject None None, outputDir = ''html-report/desktop''\<rparr>]"
  by (simp add: playwright_project_config_Inr [OF envConfig_env_local] ec_local_def
      customDevices_def customList_def builtin_devices_def unknown_desktop_def
      projectConfig_def desktopProjects_def mobileProjects_def createDeviceProject_def)

text \<open>
  Claim C3, amended: composition fails only when the construction of the environment
  configuration fails, and then with that error. For every input list containing a device
  name that is not a key of the registry, and every environment whose configuration is
  constructed, composition returns a sequence that holds an individual project for that
  name (in the desktop list: named by the replacement, with the entry's channel and the
  desktop output directory; in the mobile list: named by the device name, with no channel
  and the mobile output directory) whose settings hold no device property.
\<close>

theorem unknown_device_no_failure:
  "(playwright_project_config e devs desktop mobile = Inl err \<longleftrightarrow> envConfig e = Inl err) \<and>
   (envConfig e = Inr ec \<and> customDevices devs n = None \<longrightarrow>
      (\<exists>ps. playwright_project_config e devs desktop mobile = Inr ps \<and>
         (\<forall>d \<in> set desktop. deviceName d = n \<longrightarrow>
            \<lparr>name = String_replace n ''Desktop '' [], use = UseObject None (channel d),
             outputDir = DesktopReportPath ec\<rparr> \<in> set ps) \<and>
         (n \<in> set mobile \<longrightarrow>
            \<lparr>name = n, use = UseObject None None, outputDir = MobileReportPath ec\<rparr> \<in> set ps)))"
proof (intro conjI impI)
  show "playwright_project_config e devs desktop mobile = Inl err \<longleftrightarrow> envConfig e = Inl err"
    by (rule playwright_project_config_Inl)
next
  assume a: "envConfig e = Inr ec \<and> customDevices devs n = None"
  let ?ps = "projectConfig (customDevices devs) ec desktop mobile"
  have "playwright_project_config e devs desktop mobile = Inr ?ps"
    using a by (simp add: playwright_project_config_Inr)
  moreover have "\<forall>d \<in> set desktop. deviceName d = n \<longrightarrow>
            \<lparr>name = String_replace n ''Desktop '' [], use = UseObject None (channel d),
             outputDir = DesktopReportPath ec\<rparr> \<in> set ?ps"
  proof (intro ballI impI)
    fix d assume d: "d \<in> set desktop" "deviceName d = n"
    from desktop_project_mem [OF d(1), of "customDevices devs" ec mobile] a d(2)
    show "\<lparr>name = String_replace n ''Desktop '' [], use = UseObject None (channel d),
             outputDir = DesktopReportPath ec\<rparr> \<in> set ?ps"
      by (simp add: createDeviceProject_def)
  qed
  moreover have "n \<in> set mobile \<longrightarrow>
            \<lparr>name = n, use = UseObject None None, outputDir = MobileReportPath ec\<rparr> \<in> set ?ps"
    using a mobile_project_mem [of n mobile "customDevices devs" ec desktop]
    by (auto simp: createDeviceProject_def)
  ultimately show "\<exists>ps. playwright_project_config e devs desktop mobile = Inr ps \<and>
         (\<forall>d \<in> set desktop. deviceName d = n \<longrightarrow>
            \<lparr>name = String_replace n ''Desktop '' [], use = UseObject None (channel d),
             outputDir = DesktopReportPath ec\<rparr> \<in> set ps) \<and>
         (n \<in> set mobile \<longrightarrow>
            \<lparr>name = n, use = UseObject None None, outputDir = MobileReportPath ec\<rparr> \<in> set ps)"
    by blast
qed

theorem unknown_device_no_failure_witness:
  "envConfig env_local = Inr ec_local \<and>
   customDevices builtin_devices ''Nokia 3310'' = None \<and>
   (\<exists>ps. playwright_project_config env_local builtin_devices unknown_desktop [''Nokia 3310''] = Inr ps \<and>
      \<lparr>name = ''Nokia 3310'', use = UseObject None None, outputDir = ''html-report/desktop''\<rparr> \<in> set ps \<and>
      \<lparr>name = ''Nokia 3310'', use = UseObject None None, outputDir = ''html-report/mobile''\<rparr> \<in> set ps)"
proof -
  have n: "customDevices builtin_devices ''Nokia 3310'' = None"
    by (simp add: customDevices_def customList_def builtin_devices_def)
  have r: "String_replace ''Nokia 3310'' ''Desktop '' [] = ''Nokia 3310''"
    by simp
  from unknown_device_no_failure [of env_local builtin_devices unknown_desktop "[''Nokia 3310'']" SyntaxError ec_local "''Nokia 3310''"]
    envConfig_env_local n
  obtain ps where ps: "playwright_project_config env_local builtin_devices unknown_desktop [''Nokia 3310''] = Inr ps"
    and d: "\<forall>d \<in> set unknown_desktop. deviceName d = ''Nokia 3310'' \<longrightarrow>
            \<lparr>name = String_replace ''Nokia 3310'' ''Desktop '' [], use = UseObject None (channel d),
             outputDir = DesktopReportPath ec_local\<rparr> \<in> set ps"
    and m: "\<lparr>name = ''Nokia 3310'', use = UseObject None None, outputDir = MobileReportPath ec_local\<rparr> \<in> set ps"
    by auto
  from d have "\<lparr>name = ''Nokia 3310'', use = UseObject None None, outputDir = ''html-report/desktop''\<rparr> \<in> set ps"
    unfolding r by (simp add: unknown_desktop_def ec_local_def)
  moreover from m have "\<lparr>name = ''Nokia 3310'', use = UseObject None None, outputDir = ''html-report/mobile''\<rparr> \<in> set ps"
    by (simp add: ec_local_def)
  ultimately show ?thesis using ps n envConfig_env_local by blast
qed

text \<open>
  Claim C4, as stated: the project names of the composed sequence are pairwise distinct,
  and composition fails with a duplicate-name error when two projects would share a name.
  This is false: with the device \<^verbatim>\<open>iPhone 12\<close> in both lists, composition returns a
  sequence with two projects of that name.
\<close>

theorem duplicate_names_counterexample:
  "map_sum id (map name) (playwright_project_config env_local builtin_devices iphone_desktop [''iPhone 12'']) =
     Inr [''Desktop'', ''Mobile'', ''iPhone 12'', ''iPhone 12'']"
  by (simp add: playwright_project_config_Inr [OF envConfig_env_local] projectConfig_names iphone_desktop_def)

text \<open>
  Claim C4, amended: composition makes no uniqueness check. For every pair of input lists
  and every environment whose configuration is constructed, it returns the sequence whose
  project names are \<^verbatim>\<open>Desktop\<close>, \<^verbatim>\<open>Mobile\<close>, the desktop device names after the replacement
  and the mobile device names, in this order; these names are pairwise distinct exactly
  when the derived names are pairwise distinct and none of them is \<^verbatim>\<open>Desktop\<close> or
  \<^verbatim>\<open>Mobile\<close>. For the repository's own two lists they are pairwise distinct.
\<close>

theorem project_names_distinct_iff:
  "(envConfig e = Inr ec \<longrightarrow>
      (\<exists>ps. playwright_project_config e devs desktop mobile = Inr ps \<and>
         map name ps =
           ''Desktop'' # ''Mobile'' #
           map (\<lambda>d. String_replace (deviceName d) ''Desktop '' []) desktop @ mobile \<and>
         (distinct (map name ps) \<longleftrightarrow>
            distinct (map (\<lambda>d. String_replace (deviceName d) ''Desktop '' []) desktop @ mobile) \<and>
            ''Desktop'' \<notin> set (map (\<lambda>d. String_replace (deviceName d) ''Desktop '' []) desktop @ mobile) \<and>
            ''Mobile'' \<notin> set (map (\<lambda>d. String_replace (deviceName d) ''Desktop '' []) desktop @ mobile)))) \<and>
   distinct (map name (projectConfig devices ec desktopBrowsers mobileBrowsers))"
proof (intro conjI impI)
  assume a: "envConfig e = Inr ec"
  let ?ps = "projectConfig (customDevices devs) ec desktop mobile"
  let ?ns = "map (\<lambda>d. String_replace (deviceName d) ''Desktop '' []) desktop @ mobile"
  have "playwright_project_config e devs desktop mobile = Inr ?ps"
    using a by (simp add: playwright_project_config_Inr)
  moreover have n: "map name ?ps = ''Desktop'' # ''Mobile'' # ?ns"
    by (rule projectConfig_names)
  moreover have "distinct (map name ?ps) \<longleftrightarrow>
      distinct ?ns \<and> ''Desktop'' \<notin> set ?ns \<and> ''Mobile'' \<notin> set ?ns"
    unfolding n by auto
  ultimately show "\<exists>ps. playwright_project_config e devs desktop mobile = Inr ps \<and>
         map name ps = ''Desktop'' # ''Mobile'' # ?ns \<and>
         (distinct (map name ps) \<longleftrightarrow>
            distinct ?ns \<and> ''Desktop'' \<notin> set ?ns \<and> ''Mobile'' \<notin> set ?ns)"
    by (intro exI [of _ ?ps] conjI)
next
  show "distinct (map name (projectConfig devices ec desktopBrowsers mobileBrowsers))"
    unfolding projectConfig_names by (simp add: desktopBrowsers_def mobileBrowsers_def)
qed

theorem project_names_distinct_iff_witness:
  "envConfig env_local = Inr ec_local \<and>
   (\<exists>ps. playwright_project_config env_local builtin_devices chrome_desktop [''iPhone 12''] = Inr ps \<and>
      map name ps = [''Desktop'', ''Mobile'', ''Chrome'', ''iPhone 12''] \<and> distinct (map name ps))"
proof -
  let ?ns = "map (\<lambda>d. String_replace (deviceName d) ''Desktop '' []) chrome_desktop @ [''iPhone 12'']"
  from mp [OF conjunct1 [OF project_names_distinct_iff
        [of env_local ec_local builtin_devices chrome_desktop "[''iPhone 12'']" builtin_devices]]
      envConfig_env_local]
  obtain ps where p:
    "playwright_project_config env_local builtin_devices chrome_desktop [''iPhone 12''] = Inr ps \<and>
     map name ps = ''Desktop'' # ''Mobile'' # ?ns \<and>
     (distinct (map name ps) \<longleftrightarrow>
        distinct ?ns \<and> ''Desktop'' \<notin> set ?ns \<and> ''Mobile'' \<notin> set ?ns)" ..
  have ns: "?ns = [''Chrome'', ''iPhone 12'']"
    by (simp add: chrome_desktop_def)
  from p have "map name ps = [''Desktop'', ''Mobile'', ''Chrome'', ''iPhone 12'']"
    unfolding ns by simp
  moreover from p have "distinct (map name ps)"
    unfolding ns by simp
  ultimately show ?thesis using p envConfig_env_local by (intro conjI exI [of _ ps]) simp_all
qed

text \<open>
  Claim C5: for every pair of input lists whose device names all resolve (to the
  descriptors \<open>Ds\<close> and \<open>Ms\<close>, in order), the composed sequence is exactly the aggregate
  \<^verbatim>\<open>Desktop\<close> project, the aggregate \<^verbatim>\<open>Mobile\<close> project, the individual desktop projects in
  input order and the individual mobile projects in input order; the settings of an
  individual desktop project are the descriptor of its device with the channel of its
  entry, and the settings of an individual mobile project are the descriptor of its device
  with no channel.
\<close>

theorem projectConfig_sequence:
  assumes "map (\<lambda>d. devices (deviceName d)) desktop = map Some Ds"
    and "map devices mobile = map Some Ms"
  shows "projectConfig devices ec desktop mobile =
     \<lparr>name = ''Desktop'', use = UseArray (map Some Ds), outputDir = DesktopReportPath ec\<rparr> #
     \<lparr>name = ''Mobile'', use = UseArray (map Some Ms), outputDir = MobileReportPath ec\<rparr> #
     map (\<lambda>(d, D). \<lparr>name = String_replace (deviceName d) ''Desktop '' [],
                      use = UseObject (Some D) (channel d),
                      outputDir = DesktopReportPath ec\<rparr>) (zip desktop Ds) @
     map (\<lambda>(m, D). \<lparr>name = m, use = UseObject (Some D) None,
                      outputDir = MobileReportPath ec\<rparr>) (zip mobile Ms)"
proof -
  have d: "desktopProjects devices ec desktop =
     map (\<lambda>(d, D). \<lparr>name = String_replace (deviceName d) ''Desktop '' [],
                      use = UseObject (Some D) (channel d),
                      outputDir = DesktopReportPath ec\<rparr>) (zip desktop Ds)"
    unfolding desktopProjects_def createDeviceProject_def
    using map_resolved [OF assms(1), of "\<lambda>d r. \<lparr>name = String_replace (deviceName d) ''Desktop '' [],
                      use = UseObject r (channel d), outputDir = DesktopReportPath ec\<rparr>"]
    by simp
  have m: "mobileProjects devices ec mobile =
     map (\<lambda>(m, D). \<lparr>name = m, use = UseObject (Some D) None,
                      outputDir = MobileReportPath ec\<rparr>) (zip mobile Ms)"
    unfolding mobileProjects_def createDeviceProject_def
    using map_resolved [OF assms(2), of "\<lambda>m r. \<lparr>name = m, use = UseObject r None,
                      outputDir = MobileReportPath ec\<rparr>"]
    by simp
  show ?thesis
    unfolding projectConfig_def d m using assms by simp
qed

theorem projectConfig_sequence_witness:
  "map (\<lambda>d. builtin_devices (deviceName d)) chrome_desktop = map Some [DesktopChrome] \<and>
   map builtin_devices [''iPhone 12''] = map Some [iPhone12] \<and>
   projectConfig builtin_devices ec_local chrome_desktop [''iPhone 12''] =
     [\<lparr>name = ''Desktop'', use = UseArray [Some DesktopChrome], outputDir = ''html-report/desktop''\<rparr>,
      \<lparr>name = ''Mobile'', use = UseArray [Some iPhone12], outputDir = ''html-report/mobile''\<rparr>,
      \<lparr>name = ''Chrome'', use = UseObject (Some DesktopChrome) (Some ''chrome''),
       outputDir = ''html-report/desktop''\<rparr>,
      \<lparr>name = ''iPhone 12'', use = UseObject (Some iPhone12) None,
       outputDir = ''html-report/mobile''\<rparr>]"
proof -
  have d: "map (\<lambda>d. builtin_devices (deviceName d)) chrome_desktop = map Some [DesktopChrome]"
    by (simp add: chrome_desktop_def builtin_devices_def)
  have m: "map builtin_devices [''iPhone 12''] = map Some [iPhone12]"
    by (simp add: builtin_devices_def)
  have z: "zip chrome_desktop [DesktopChrome] =
      [(\<lparr>deviceName = ''Desktop Chrome'', channel = Some ''chrome''\<rparr>, DesktopChrome)]"
    by (simp add: chrome_desktop_def)
  show ?thesis
    using d m projectConfig_sequence [OF d m, of ec_local]
    unfolding z by (simp add: ec_local_def)
qed

text \<open>
  Claim C6, as stated: the name of an individual desktop project is the device name with
  the prefix \<^verbatim>\<open>Desktop \<close> removed when the name starts with it, and the device name
  unchanged otherwise. This is false for a device name that has \<^verbatim>\<open>Desktop \<close> further
  inside: the replacement removes it there too.
\<close>

theorem replace_not_prefix_counterexample:
  "\<not> prefix ''Desktop '' ''Remote Desktop Chrome'' \<and>
   deviceName (remote_desktop ! 0) = ''Remote Desktop Chrome'' \<and>
   name (projectConfig builtin_devices ec_local remote_desktop [] ! 2) = ''Remote Chrome''"
  by (simp add: remote_desktop_def projectConfig_def desktopProjects_def mobileProjects_def createDeviceProject_def)

text \<open>
  Claim C6, amended: the name of the individual project of a desktop entry is the device
  name with the first occurrence of \<^verbatim>\<open>Desktop \<close> removed: the prefix is removed when the
  name starts with it, the name is unchanged when \<^verbatim>\<open>Desktop \<close> does not occur in it, and
  an occurrence further inside is removed as well. The name of the individual project of a
  mobile entry is the device name.
\<close>

theorem project_names:
  "(i < length desktop \<longrightarrow>
      (let n = deviceName (desktop ! i);
           p = name (projectConfig devices ec desktop mobile ! (2 + i))
       in (prefix ''Desktop '' n \<longrightarrow> p = drop (length ''Desktop '') n) \<and>
          (\<not> sublist ''Desktop '' n \<longrightarrow> p = n) \<and>
          (\<forall>a b. n = a @ ''Desktop '' @ b \<and> \<not> sublist ''Desktop '' (a @ ''Desktop'') \<longrightarrow> p = a @ b))) \<and>
   (j < length mobile \<longrightarrow>
      name (projectConfig devices ec desktop mobile ! (2 + length desktop + j)) = mobile ! j)"
proof (intro conjI impI)
  assume i: "i < length desktop"
  show "let n = deviceName (desktop ! i);
            p = name (projectConfig devices ec desktop mobile ! (2 + i))
        in (prefix ''Desktop '' n \<longrightarrow> p = drop (length ''Desktop '') n) \<and>
           (\<not> sublist ''Desktop '' n \<longrightarrow> p = n) \<and>
           (\<forall>a b. n = a @ ''Desktop '' @ b \<and> \<not> sublist ''Desktop '' (a @ ''Desktop'') \<longrightarrow> p = a @ b)"
    unfolding Let_def desktop_name [OF i]
    using replace_Desktop_prefix replace_absent replace_Desktop_inside by metis
next
  assume "j < length mobile"
  then show "name (projectConfig devices ec desktop mobile ! (2 + length desktop + j)) = mobile ! j"
    by (rule mobile_name)
qed

theorem project_names_witness:
  "deviceName (desktopBrowsers ! 2) = ''Desktop Firefox'' \<and>
   name (projectConfig builtin_devices ec_local desktopBrowsers mobileBrowsers ! 4) = ''Firefox'' \<and>
   mobileBrowsers ! 0 = ''Galaxy S5'' \<and>
   name (projectConfig builtin_devices ec_local desktopBrowsers mobileBrowsers ! 6) = ''Galaxy S5''"
proof -
  have d: "deviceName (desktopBrowsers ! 2) = ''Desktop Firefox''" "(2::nat) < length desktopBrowsers"
    by (simp_all add: desktopBrowsers_def)
  have m: "mobileBrowsers ! 0 = ''Galaxy S5''" "(0::nat) < length mobileBrowsers" "length desktopBrowsers = 4"
    by (simp_all add: mobileBrowsers_def desktopBrowsers_def)
  from project_names [of 2 desktopBrowsers builtin_devices ec_local mobileBrowsers 0] d m
  show ?thesis by (simp add: Let_def)
qed

section \<open>File-based settings loader: properties\<close>

text \<open>
  Claim C1: for every path and every state of the file system, \<^verbatim>\<open>readObject\<close> returns
  \<^verbatim>\<open>undefined\<close> to its synchronous caller, because the callback of the asynchronous read is
  still waiting, and \<^verbatim>\<open>content\<close> still empty, when the content check runs; in particular
  the exported \<^verbatim>\<open>PlayWrightServerConfig\<close> is \<^verbatim>\<open>undefined\<close> whatever web-server.json holds.
\<close>

theorem readObject_returns_undefined:
  "fst (readObject JSON_parse fs path st) = Inr None \<and>
   content (snd (readObject JSON_parse fs path st)) = [] \<and>
   pending (snd (readObject JSON_parse fs path st)) = pending st @ [(path, read_outcome (fs path))] \<and>
   PlayWrightServerConfig JSON_parse fs WebServerConfigPath = Inr None"
  by (simp add: readObject_def fs_readFile_def PlayWrightServerConfig_def Let_def)

text \<open>
  Claim C2: \<^verbatim>\<open>readObject\<close> returns the parsed value when the file exists with valid JSON
  content, with the outcome resolved before it returns. The code does not do this: for a
  file holding \<^verbatim>\<open>[]\<close> it returns \<^verbatim>\<open>undefined\<close>, whatever \<^verbatim>\<open>JSON.parse\<close> would give, and the
  contents reach \<^verbatim>\<open>content\<close> only in the later turn of the event loop.
\<close>

theorem readObject_valid_file_undefined:
  "fs_with_server_json server_json_path = File ''[]'' \<and>
   fst (readObject JSON_parse fs_with_server_json server_json_path initial_runtime) = Inr None \<and>
   fst (readObject JSON_parse fs_with_server_json server_json_path initial_runtime) \<noteq> Inr (Some v) \<and>
   event_loop (snd (readObject JSON_parse fs_with_server_json server_json_path initial_runtime)) =
     Inr \<lparr>content = ''[]'', pending = []\<rparr>"
  by (simp add: readObject_def fs_readFile_def Let_def fs_with_server_json_def initial_runtime_def
      event_loop_def readObject_callback_def read_outcome_def)

section \<open>Entry point: properties\<close>

text \<open>
  Claim C10: for every environment in which the configuration loads (also with
  \<^verbatim>\<open>RUN_PARALLEL\<close> set to \<^verbatim>\<open>true\<close>), the \<^verbatim>\<open>fullyParallel\<close> value handed to the external runner
  is \<^verbatim>\<open>undefined\<close> and is not the \<^verbatim>\<open>RunParallel\<close> boolean of the environment configuration,
  because the entry point reads the property \<^verbatim>\<open>RunParrel\<close>, which the instance does not
  have.
\<close>

theorem fullyParallel_undefined:
  "playwright_config e devs JSON_parse fs p = Inr tc \<Longrightarrow>
   fullyParallel tc = None \<and>
   (\<forall>ec. envConfig e = Inr ec \<longrightarrow> fullyParallel tc \<noteq> Some (JBoolean (RunParallel ec)))"
  by (auto simp: playwright_config_def defineConfig_def EnvironmentConfig_get_def split: sum.splits)

theorem fullyParallel_undefined_witness:
  "envConfig env_local = Inr ec_local \<and> RunParallel ec_local \<and>
   (\<exists>tc. playwright_config env_local builtin_devices no_JSON fs_with_server_json server_json_path = Inr tc \<and>
         fullyParallel tc = None)"
proof -
  obtain tc where tc: "playwright_config env_local builtin_devices no_JSON fs_with_server_json server_json_path = Inr tc"
    by (simp add: playwright_config_def config_def envConfig_env_local PlayWrightServerConfig_def
        readObject_def fs_readFile_def Let_def)
  from fullyParallel_undefined [OF tc] have "fullyParallel tc = None" by blast
  with tc show ?thesis by (simp add: envConfig_env_local) (simp add: ec_local_def)
qed

end
